theory Spec2Isabelle
  imports Main
begin

section \<open>The image-edit adapter of \<^verbatim>\<open>services/geminiService.ts\<close>\<close>

text \<open>
  The adapter \<^verbatim>\<open>editImageWithGemini\<close> reshapes a data URL and an instruction into
  one request of the generation SDK, awaits the answer and unpacks the first inline image
  of the first candidate. JavaScript strings are modelled as \<^typ>\<open>string\<close>, one
  \<^typ>\<open>char\<close> per code unit: the adapter splits at commas, trims white space and
  concatenates, and looks at no other character. \<^verbatim>\<open>undefined\<close> is \<^term>\<open>None\<close>; a
  rejected promise is \<^term>\<open>Inl\<close> of the \<^verbatim>\<open>Error\<close> it carries, a resolved one
  \<^term>\<open>Inr\<close> of its value. The remote call is taken to settle: the adapter sets no
  timeout, and a call that never settles leaves the promise pending.
\<close>

subsection \<open>Data\<close>

text \<open>
  The SDK's \<^verbatim>\<open>Blob\<close>, \<^verbatim>\<open>Part\<close>, \<^verbatim>\<open>Content\<close>, \<^verbatim>\<open>Candidate\<close> and response objects.
  Every property the adapter reads is optional in the SDK: the adapter guards
  \<^verbatim>\<open>candidates\<close>, \<^verbatim>\<open>content\<close> and \<^verbatim>\<open>parts\<close> with \<^verbatim>\<open>?.\<close> and tests \<^verbatim>\<open>inlineData\<close>
  for presence. The same \<^verbatim>\<open>Part\<close> shape carries the request's two parts.
\<close>

record Blob =
  data :: "string option"
  mimeType :: "string option"

record Part =
  inlineData :: "Blob option"
  part_text :: "string option"

record Content =
  parts :: "Part list option"

record Candidate =
  content :: "Content option"

record GenerateContentResponse =
  candidates :: "Candidate list option"

record GenerateContentParameters =
  model :: string
  contents :: Content

text \<open>\<^verbatim>\<open>types.ts\<close>: the adapter's argument.\<close>

record EditRequest =
  image :: string
  mimeType :: string
  instruction :: string

text \<open>The part of \<^verbatim>\<open>process.env\<close> the adapter reads, and the client built from it.\<close>

record ProcessEnv =
  API_KEY :: "string option"

record GoogleGenAI =
  apiKey :: string

text \<open>
  A thrown value: an object whose \<^verbatim>\<open>message\<close> property is a string or is missing.
  \<^verbatim>\<open>new Error(m)\<close> is \<open>Error (Some m)\<close>.
\<close>

datatype js_error = Error (message: "string option")

text \<open>
  The remote call \<^verbatim>\<open>ai.models.generateContent\<close>: it reads and changes a world
  \<^typ>\<open>'w\<close> (the network, the remote model) and either throws or answers.
\<close>

type_synonym 'w generateContent =
  "GoogleGenAI \<Rightarrow> GenerateContentParameters \<Rightarrow> 'w \<Rightarrow> (js_error + GenerateContentResponse) \<times> 'w"

subsection \<open>JavaScript primitives the adapter uses\<close>

text \<open>\<^verbatim>\<open>a || b\<close> on a string that may be undefined: the empty string is falsy too.\<close>

definition js_or :: "string option \<Rightarrow> string \<Rightarrow> string" where
  "js_or a b = (case a of None \<Rightarrow> b | Some s \<Rightarrow> if s = [] then b else s)"

text \<open>\<^verbatim>\<open>xs[i]\<close>: undefined out of range.\<close>

definition js_index :: "'a list \<Rightarrow> nat \<Rightarrow> 'a option" where
  "js_index xs i = (if i < length xs then Some (xs ! i) else None)"

text \<open>\<^verbatim>\<open>${v}\<close> inside a template literal: an undefined value prints as its name.\<close>

definition js_template :: "string option \<Rightarrow> string" where
  "js_template v = (case v of None \<Rightarrow> ''undefined'' | Some s \<Rightarrow> s)"

text \<open>
  \<^verbatim>\<open>s.split(sep)\<close> for a one-character separator: the pieces between the separators,
  in order; a string without the separator is its only piece.
\<close>

function js_split :: "char \<Rightarrow> string \<Rightarrow> string list" where
  "js_split sep s =
     (case dropWhile (\<lambda>c. c \<noteq> sep) s of
        [] \<Rightarrow> [s]
      | _ # rest \<Rightarrow> takeWhile (\<lambda>c. c \<noteq> sep) s # js_split sep rest)"
  by pat_completeness auto
termination
proof (relation "measure (\<lambda>(sep, s). length s)")
  show "wf (measure (\<lambda>(sep, s). length s))"
    by simp
next
  fix sep :: char and s :: string and x rest
  assume "dropWhile (\<lambda>c. c \<noteq> sep) s = x # rest"
  then have "length (dropWhile (\<lambda>c. c \<noteq> sep) s) = Suc (length rest)"
    by simp
  moreover have "length (dropWhile (\<lambda>c. c \<noteq> sep) s) \<le> length s"
    by (rule length_dropWhile_le)
  ultimately show "((sep, rest), (sep, s)) \<in> measure (\<lambda>(sep, s). length s)"
    by simp
qed

text \<open>
  \<^verbatim>\<open>s.trim()\<close>: the white space and line terminators of ECMAScript that fit a
  \<^typ>\<open>char\<close> (tab, line feed, vertical tab, form feed, carriage return, space,
  no-break space) are dropped at both ends.
\<close>

definition js_whitespace :: "char \<Rightarrow> bool" where
  "js_whitespace c \<longleftrightarrow>
     c = CHR 0x09 \<or> c = CHR 0x0A \<or> c = CHR 0x0B \<or> c = CHR 0x0C \<or> c = CHR 0x0D \<or>
     c = CHR 0x20 \<or> c = CHR 0xA0"

definition js_trim :: "string \<Rightarrow> string" where
  "js_trim s = rev (dropWhile js_whitespace (rev (dropWhile js_whitespace s)))"

subsection \<open>The adapter\<close>

text \<open>Line 6: the client, with the key of the environment or the empty string.\<close>

definition ai :: "ProcessEnv \<Rightarrow> GoogleGenAI" where
  "ai env = \<lparr>apiKey = js_or (API_KEY env) ''''\<rparr>"

text \<open>Lines 9 to 14: the template literal around the instruction, trimmed.\<close>

definition enhancedPrompt :: "EditRequest \<Rightarrow> string" where
  "enhancedPrompt request =
     js_trim (''\<newline>    You are an expert product photo editor. \<newline>    User instruction: ''
       @ instruction request
       @ ''\<newline>    Please modify the provided image according to the instruction while maintaining high-quality resolution and professional studio aesthetics.\<newline>    If the user asks to remove background, ensure a clean professional cutout.\<newline>  '')"

text \<open>Lines 16 to 25: the two parts of the request.\<close>

definition imagePart :: "EditRequest \<Rightarrow> Part" where
  "imagePart request =
     \<lparr>inlineData = Some \<lparr>data = js_index (js_split CHR '','' (image request)) 1,
                          Blob.mimeType = Some (mimeType request)\<rparr>,
      part_text = None\<rparr>"

definition textPart :: "EditRequest \<Rightarrow> Part" where
  "textPart request = \<lparr>inlineData = None, part_text = Some (enhancedPrompt request)\<rparr>"

text \<open>Lines 28 to 31: the argument of the one remote call.\<close>

definition generateContentParameters :: "EditRequest \<Rightarrow> GenerateContentParameters" where
  "generateContentParameters request =
     \<lparr>model = ''gemini-2.5-flash-image'',
      contents = \<lparr>parts = Some [imagePart request, textPart request]\<rparr>\<rparr>"

text \<open>
  Line 33, \<^verbatim>\<open>response.candidates?.[0]?.content?.parts\<close>: each \<^verbatim>\<open>?.\<close> passes an
  undefined value on.
\<close>

definition first_candidate_parts :: "GenerateContentResponse \<Rightarrow> Part list option" where
  "first_candidate_parts response =
     Option.bind (Option.bind (Option.bind (candidates response) (\<lambda>cs. js_index cs 0)) content) parts"

text \<open>Lines 38 to 44: the loop over the parts, and the throw after it.\<close>

fun scan_parts :: "Part list \<Rightarrow> js_error + string" where
  "scan_parts [] = Inl (Error (Some ''AI responded but no image data was found in the response.''))"
| "scan_parts (part # ps) =
     (case inlineData part of
        Some b \<Rightarrow> Inr (''data:'' @ js_template (Blob.mimeType b) @ '';base64,'' @ js_template (data b))
      | None \<Rightarrow> scan_parts ps)"

text \<open>
  Lines 33 to 44, the body of the \<^verbatim>\<open>try\<close> after the call. An array is truthy even when
  empty, so the guard of line 33 throws only on an undefined path. Line 38 reads the same
  path of the same response object again with plain property accesses; the guard has
  shown every step of it to be defined, so the loop runs over the parts the guard saw.
\<close>

definition read_response :: "GenerateContentResponse \<Rightarrow> js_error + string" where
  "read_response response =
     (case first_candidate_parts response of
        None \<Rightarrow> Inl (Error (Some ''No image was generated. Please try a different instruction.''))
      | Some ps \<Rightarrow> scan_parts ps)"

text \<open>Lines 45 to 48: the \<^verbatim>\<open>catch\<close> block (the console output is not modelled).\<close>

definition catch_rethrow :: "js_error \<Rightarrow> js_error" where
  "catch_rethrow error =
     Error (Some (js_or (message error) ''Failed to process image. Ensure your API key is valid.''))"

text \<open>Lines 27 to 48: what the \<^verbatim>\<open>try\<close>/\<^verbatim>\<open>catch\<close> makes of the outcome of the call.\<close>

definition settle :: "js_error + GenerateContentResponse \<Rightarrow> js_error + string" where
  "settle outcome =
     (case outcome of
        Inl error \<Rightarrow> Inl (catch_rethrow error)
      | Inr response \<Rightarrow>
          (case read_response response of
             Inl error \<Rightarrow> Inl (catch_rethrow error)
           | Inr url \<Rightarrow> Inr url))"

text \<open>The whole function: the promise's outcome and the world after the call.\<close>

definition editImageWithGemini ::
  "ProcessEnv \<Rightarrow> 'w generateContent \<Rightarrow> EditRequest \<Rightarrow> 'w \<Rightarrow> (js_error + string) \<times> 'w" where
  "editImageWithGemini env generateContent request w =
     (case generateContent (ai env) (generateContentParameters request) w of
        (outcome, w') \<Rightarrow> (settle outcome, w'))"

subsection \<open>Observing the calls\<close>

text \<open>
  A remote that also writes every call it receives to a log, kept beside the world. The
  log of a run started on an empty log is the list of calls the adapter issued.
\<close>

definition recording ::
  "'w generateContent \<Rightarrow> ('w \<times> (GoogleGenAI \<times> GenerateContentParameters) list) generateContent" where
  "recording generateContent client params s =
     (case generateContent client params (fst s) of
        (outcome, w') \<Rightarrow> (outcome, (w', snd s @ [(client, params)])))"

subsection \<open>The specification's vocabulary\<close>

text \<open>
  The path \<^verbatim>\<open>candidates[0].content.parts\<close> of a response, read off its structure: the
  parts of the content of the first candidate, when there is a first candidate, it has a
  content and the content has parts.
\<close>

definition candidates0_content_parts :: "GenerateContentResponse \<Rightarrow> Part list option" where
  "candidates0_content_parts response =
     (case candidates response of
        None \<Rightarrow> None
      | Some [] \<Rightarrow> None
      | Some (c # later) \<Rightarrow> (case content c of None \<Rightarrow> None | Some ct \<Rightarrow> parts ct))"

text \<open>The substring strictly after the first comma; there is none without a comma.\<close>

definition after_first_comma :: "string \<Rightarrow> string option" where
  "after_first_comma s =
     (case dropWhile (\<lambda>c. c \<noteq> CHR '','') s of [] \<Rightarrow> None | comma # rest \<Rightarrow> Some rest)"

text \<open>The payload of the image part of a request, as it is sent.\<close>

definition sent_payload :: "EditRequest \<Rightarrow> string option" where
  "sent_payload request = Option.bind (inlineData (imagePart request)) data"

subsection \<open>Remotes and inputs for concrete runs\<close>

text \<open>A remote that answers every call with the same response, and one that always throws.\<close>

definition answering :: "GenerateContentResponse \<Rightarrow> unit generateContent" where
  "answering response client params w = (Inr response, w)"

definition throwing :: "js_error \<Rightarrow> unit generateContent" where
  "throwing error client params w = (Inl error, w)"

text \<open>A response of one candidate with the given parts; a text part; an inline-image part.\<close>

definition one_candidate :: "Part list \<Rightarrow> GenerateContentResponse" where
  "one_candidate ps = \<lparr>candidates = Some [\<lparr>content = Some \<lparr>parts = Some ps\<rparr>\<rparr>]\<rparr>"

definition text_part :: "string \<Rightarrow> Part" where
  "text_part t = \<lparr>inlineData = None, part_text = Some t\<rparr>"

definition image_part :: "string \<Rightarrow> string \<Rightarrow> Part" where
  "image_part mime payload =
     \<lparr>inlineData = Some \<lparr>data = Some payload, Blob.mimeType = Some mime\<rparr>, part_text = None\<rparr>"

text \<open>The request of the specification's example scenario, and an environment without a key.\<close>

definition example_request :: EditRequest where
  "example_request =
     \<lparr>image = ''data:image/png;base64,AAAA'', mimeType = ''image/png'',
      instruction = ''Remove background''\<rparr>"

definition no_key :: ProcessEnv where
  "no_key = \<lparr>API_KEY = None\<rparr>"

section \<open>Properties\<close>

subsection \<open>Splitting and trimming\<close>

declare js_split.simps [simp del]

lemma dropWhile_no_sep: "sep \<notin> set s \<Longrightarrow> dropWhile (\<lambda>c. c \<noteq> sep) s = []"
  by (induction s) auto

lemma takeWhile_no_sep: "sep \<notin> set s \<Longrightarrow> takeWhile (\<lambda>c. c \<noteq> sep) s = s"
  by (induction s) auto

lemma js_split_no_sep: "sep \<notin> set s \<Longrightarrow> js_split sep s = [s]"
  by (subst js_split.simps) (simp add: dropWhile_no_sep)

lemma js_split_at_sep:
  assumes "sep \<notin> set p"
  shows "js_split sep (p @ sep # rest) = p # js_split sep rest"
proof -
  have d: "dropWhile (\<lambda>c. c \<noteq> sep) (p @ sep # rest) = sep # rest"
    using assms by (simp add: dropWhile_append3 dropWhile_no_sep)
  have t: "takeWhile (\<lambda>c. c \<noteq> sep) (p @ sep # rest) = p"
    using assms by (simp add: takeWhile_tail takeWhile_no_sep)
  show ?thesis
    by (subst js_split.simps) (simp add: d t)
qed

lemma js_split_first: "\<exists>more. js_split sep s = takeWhile (\<lambda>c. c \<noteq> sep) s # more"
proof (cases "sep \<in> set s")
  case False
  then show ?thesis
    by (simp add: js_split_no_sep takeWhile_no_sep)
next
  case True
  then obtain p rest where "s = p @ sep # rest" and "sep \<notin> set p"
    by (auto dest: split_list_first)
  then show ?thesis
    by (simp add: js_split_at_sep takeWhile_tail takeWhile_no_sep)
qed

lemma js_index_second:
  assumes "sep \<notin> set p"
  shows "js_index (js_split sep (p @ sep # rest)) 1 = Some (takeWhile (\<lambda>c. c \<noteq> sep) rest)"
proof -
  obtain more where "js_split sep rest = takeWhile (\<lambda>c. c \<noteq> sep) rest # more"
    using js_split_first by blast
  then show ?thesis
    using assms by (simp add: js_split_at_sep js_index_def)
qed

lemma js_index_second_none: "sep \<notin> set s \<Longrightarrow> js_index (js_split sep s) 1 = None"
  by (simp add: js_split_no_sep js_index_def)

lemma dropWhile_all: "list_all P xs \<Longrightarrow> dropWhile P (xs @ ys) = dropWhile P ys"
  by (induction xs) auto

lemma js_trim_between:
  assumes "list_all js_whitespace l" and "list_all js_whitespace r"
    and "\<not> js_whitespace a" and "\<not> js_whitespace b"
  shows "js_trim (l @ a # mid @ b # r) = a # mid @ [b]"
proof -
  have front: "dropWhile js_whitespace (l @ a # mid @ b # r) = a # mid @ b # r"
    using assms(1,3) by (simp add: dropWhile_all)
  have "rev (a # mid @ b # r) = rev r @ b # rev mid @ [a]"
    by simp
  moreover have "list_all js_whitespace (rev r)"
    using assms(2) by (simp add: list_all_iff)
  ultimately have behind: "dropWhile js_whitespace (rev (a # mid @ b # r)) = b # rev mid @ [a]"
    using assms(4) by (simp add: dropWhile_all)
  show ?thesis
    unfolding js_trim_def front behind by simp
qed

lemma enhancedPrompt_template:
  "enhancedPrompt request =
     ''You are an expert product photo editor. \<newline>    User instruction: ''
       @ instruction request
       @ ''\<newline>    Please modify the provided image according to the instruction while maintaining high-quality resolution and professional studio aesthetics.\<newline>    If the user asks to remove background, ensure a clean professional cutout.''"
proof -
  let ?mid = "''ou are an expert product photo editor. \<newline>    User instruction: ''
       @ instruction request
       @ ''\<newline>    Please modify the provided image according to the instruction while maintaining high-quality resolution and professional studio aesthetics.\<newline>    If the user asks to remove background, ensure a clean professional cutout''"
  have "enhancedPrompt request = js_trim (''\<newline>    '' @ CHR ''Y'' # ?mid @ CHR ''.'' # ''\<newline>  '')"
    unfolding enhancedPrompt_def by simp
  also have "\<dots> = CHR ''Y'' # ?mid @ [CHR ''.'']"
    by (rule js_trim_between) (simp_all add: js_whitespace_def)
  finally show ?thesis by simp
qed

subsection \<open>The outcome and the calls of a run\<close>

lemma editImageWithGemini_outcome:
  "fst (editImageWithGemini env generateContent request w) =
     settle (fst (generateContent (ai env) (generateContentParameters request) w))"
  by (simp add: editImageWithGemini_def split: prod.splits)

lemma editImageWithGemini_log:
  "snd (snd (editImageWithGemini env (recording generateContent) request (w, log))) =
     log @ [(ai env, generateContentParameters request)]"
  by (simp add: editImageWithGemini_def recording_def split: prod.splits)

lemma first_candidate_parts_path:
  "first_candidate_parts response = candidates0_content_parts response"
  by (simp add: first_candidate_parts_def candidates0_content_parts_def js_index_def
      split: option.splits list.splits)

lemma scan_parts_skip:
  "list_all (\<lambda>q. inlineData q = None) texts \<Longrightarrow> scan_parts (texts @ ps) = scan_parts ps"
  by (induction texts) auto

lemma catch_rethrow_message:
  "m \<noteq> [] \<Longrightarrow> catch_rethrow (Error (Some m)) = Error (Some m)"
  by (simp add: catch_rethrow_def js_or_def)

subsection \<open>The image of the response\<close>

text \<open>
  Claim C1. Whenever the remote call answers and the parts of the first candidate hold an
  inline-image part, the adapter resolves to \<^verbatim>\<open>data:<mime>;base64,<payload>\<close> with the
  declared mime type and payload of the first part that carries inline data, however many
  parts without inline data (text parts) stand before it and whatever follows it.
\<close>

theorem first_inline_image_returned:
  assumes "fst (generateContent (ai env) (generateContentParameters request) w) = Inr response"
    and "candidates response = Some (c # later)"
    and "content c = Some ct"
    and "parts ct = Some (texts @ p # rest)"
    and "list_all (\<lambda>q. inlineData q = None) texts"
    and "inlineData p = Some b"
    and "Blob.mimeType b = Some mime"
    and "data b = Some payload"
  shows "fst (editImageWithGemini env generateContent request w) =
           Inr (''data:'' @ mime @ '';base64,'' @ payload)"
proof -
  have "first_candidate_parts response = Some (texts @ p # rest)"
    using assms(2-4) by (simp add: first_candidate_parts_path candidates0_content_parts_def)
  moreover have "scan_parts (texts @ p # rest) = Inr (''data:'' @ mime @ '';base64,'' @ payload)"
    using assms(5-8) by (simp add: scan_parts_skip js_template_def)
  ultimately have "read_response response = Inr (''data:'' @ mime @ '';base64,'' @ payload)"
    by (simp add: read_response_def)
  then show ?thesis
    using assms(1) by (simp add: editImageWithGemini_outcome settle_def)
qed

text \<open>
  The example of the specification with a text part put in front and a second image behind:
  the first image is returned.
\<close>

theorem first_inline_image_returned_witness:
  "fst (editImageWithGemini no_key
          (answering (one_candidate
             [text_part ''Here is the edited photo.'', image_part ''image/png'' ''BBBB'',
              image_part ''image/jpeg'' ''CCCC'']))
          example_request ())
     = Inr ''data:image/png;base64,BBBB''"
proof -
  let ?ps = "[text_part ''Here is the edited photo.'', image_part ''image/png'' ''BBBB'',
              image_part ''image/jpeg'' ''CCCC'']"
  have called: "fst (answering (one_candidate ?ps) (ai no_key)
                  (generateContentParameters example_request) ()) = Inr (one_candidate ?ps)"
    by (simp add: answering_def)
  have cands: "candidates (one_candidate ?ps) = Some (\<lparr>content = Some \<lparr>parts = Some ?ps\<rparr>\<rparr> # [])"
    by (simp add: one_candidate_def)
  have cont: "content \<lparr>content = Some \<lparr>parts = Some ?ps\<rparr>\<rparr> = Some \<lparr>parts = Some ?ps\<rparr>"
    by simp
  have ps: "parts \<lparr>parts = Some ?ps\<rparr> =
      Some ([text_part ''Here is the edited photo.''] @ image_part ''image/png'' ''BBBB'' #
        [image_part ''image/jpeg'' ''CCCC''])"
    by simp
  have texts: "list_all (\<lambda>q. inlineData q = None) [text_part ''Here is the edited photo.'']"
    by (simp add: text_part_def)
  have img: "inlineData (image_part ''image/png'' ''BBBB'') =
      Some \<lparr>data = Some ''BBBB'', Blob.mimeType = Some ''image/png''\<rparr>"
    by (simp add: image_part_def)
  have mime: "Blob.mimeType \<lparr>data = Some ''BBBB'', Blob.mimeType = Some ''image/png''\<rparr> = Some ''image/png''"
    by simp
  have payload: "data \<lparr>data = Some ''BBBB'', Blob.mimeType = Some ''image/png''\<rparr> = Some ''BBBB''"
    by simp
  show ?thesis
    using first_inline_image_returned
      [where generateContent = "answering (one_candidate ?ps)",
        OF called cands cont ps texts img mime payload]
    by simp
qed

subsection \<open>The payload that is sent\<close>

lemma sent_payload_cut:
  "sent_payload request =
     map_option (takeWhile (\<lambda>c. c \<noteq> CHR '','')) (after_first_comma (image request))"
proof (cases "CHR '','' \<in> set (image request)")
  case False
  then show ?thesis
    by (simp add: sent_payload_def imagePart_def js_index_second_none [simplified]
        after_first_comma_def dropWhile_no_sep)
next
  case True
  then obtain p rest where split: "image request = p @ CHR '','' # rest" and p: "CHR '','' \<notin> set p"
    by (auto dest: split_list_first)
  have "dropWhile (\<lambda>c. c \<noteq> CHR '','') (p @ CHR '','' # rest) = CHR '','' # rest"
    using p by (simp add: dropWhile_append3 dropWhile_no_sep)
  then show ?thesis
    using p by (simp add: sent_payload_def imagePart_def split js_index_second [simplified]
        after_first_comma_def)
qed




subsection \<open>Rejections\<close>

lemma read_response_no_path:
  "candidates0_content_parts response = None \<Longrightarrow>
   read_response response =
     Inl (Error (Some ''No image was generated. Please try a different instruction.''))"
  by (simp add: read_response_def first_candidate_parts_path)

lemma scan_parts_no_image:
  "list_all (\<lambda>q. inlineData q = None) ps \<Longrightarrow>
   scan_parts ps = Inl (Error (Some ''AI responded but no image data was found in the response.''))"
  by (induction ps) auto

text \<open>
  Claim C3, as the code has it. When the call answers and the response has no candidates
  (the list is missing or empty), or its first candidate has no content, or that content
  has no \<^verbatim>\<open>parts\<close> property, the adapter rejects with the message that no image was
  generated. The guard of line 33 tests for presence only: a first candidate whose list of
  parts is there but empty passes it and is rejected with the message of the missing image
  data instead.
\<close>

theorem no_candidate_rejection:
  assumes "fst (generateContent (ai env) (generateContentParameters request) w) = Inr response"
  shows
    "(candidates response = None \<or> candidates response = Some [] \<or>
      (\<exists>c later. candidates response = Some (c # later) \<and>
         (content c = None \<or> (\<exists>ct. content c = Some ct \<and> parts ct = None))) \<longrightarrow>
      fst (editImageWithGemini env generateContent request w) =
        Inl (Error (Some ''No image was generated. Please try a different instruction.''))) \<and>
     ((\<exists>c later ct. candidates response = Some (c # later) \<and> content c = Some ct \<and>
         parts ct = Some []) \<longrightarrow>
      fst (editImageWithGemini env generateContent request w) =
        Inl (Error (Some ''AI responded but no image data was found in the response.'')))"
proof (intro conjI impI)
  assume "candidates response = None \<or> candidates response = Some [] \<or>
      (\<exists>c later. candidates response = Some (c # later) \<and>
         (content c = None \<or> (\<exists>ct. content c = Some ct \<and> parts ct = None)))"
  then have "candidates0_content_parts response = None"
    by (auto simp: candidates0_content_parts_def)
  then have "read_response response =
      Inl (Error (Some ''No image was generated. Please try a different instruction.''))"
    by (rule read_response_no_path)
  then show "fst (editImageWithGemini env generateContent request w) =
        Inl (Error (Some ''No image was generated. Please try a different instruction.''))"
    using assms by (simp add: editImageWithGemini_outcome settle_def catch_rethrow_message)
next
  assume "\<exists>c later ct. candidates response = Some (c # later) \<and> content c = Some ct \<and>
         parts ct = Some []"
  then have "first_candidate_parts response = Some []"
    by (auto simp: first_candidate_parts_path candidates0_content_parts_def)
  then have "read_response response =
      Inl (Error (Some ''AI responded but no image data was found in the response.''))"
    by (simp add: read_response_def)
  then show "fst (editImageWithGemini env generateContent request w) =
        Inl (Error (Some ''AI responded but no image data was found in the response.''))"
    using assms by (simp add: editImageWithGemini_outcome settle_def catch_rethrow_message)
qed

text \<open>
  An empty list of candidates, and a first candidate whose content has no parts property.
\<close>

theorem no_candidate_rejection_witness:
  "fst (editImageWithGemini no_key (answering \<lparr>candidates = Some []\<rparr>) example_request ()) =
     Inl (Error (Some ''No image was generated. Please try a different instruction.'')) \<and>
   fst (editImageWithGemini no_key (answering \<lparr>candidates = Some [\<lparr>content = Some \<lparr>parts = None\<rparr>\<rparr>]\<rparr>)
          example_request ()) =
     Inl (Error (Some ''No image was generated. Please try a different instruction.''))"
proof -
  have a: "fst (answering \<lparr>candidates = Some []\<rparr> (ai no_key)
              (generateContentParameters example_request) ()) = Inr \<lparr>candidates = Some []\<rparr>"
    by (simp add: answering_def)
  have b: "fst (answering \<lparr>candidates = Some [\<lparr>content = Some \<lparr>parts = None\<rparr>\<rparr>]\<rparr> (ai no_key)
              (generateContentParameters example_request) ()) =
            Inr \<lparr>candidates = Some [\<lparr>content = Some \<lparr>parts = None\<rparr>\<rparr>]\<rparr>"
    by (simp add: answering_def)
  show ?thesis
    using no_candidate_rejection [where generateContent = "answering \<lparr>candidates = Some []\<rparr>", OF a]
      no_candidate_rejection
        [where generateContent = "answering \<lparr>candidates = Some [\<lparr>content = Some \<lparr>parts = None\<rparr>\<rparr>]\<rparr>", OF b]
    by simp
qed

text \<open>
  Claim C3 as stated fails on a first candidate with an empty list of parts: the rejection
  is not the one of the missing candidate.
\<close>

theorem empty_parts_not_no_candidate:
  "fst (editImageWithGemini no_key (answering (one_candidate [])) example_request ()) =
     Inl (Error (Some ''AI responded but no image data was found in the response.'')) \<and>
   fst (editImageWithGemini no_key (answering (one_candidate [])) example_request ()) \<noteq>
     Inl (Error (Some ''No image was generated. Please try a different instruction.''))"
  by (simp add: editImageWithGemini_outcome answering_def settle_def read_response_def
      first_candidate_parts_path candidates0_content_parts_def one_candidate_def
      catch_rethrow_message)

text \<open>
  Claim C4. When the call answers and the first candidate has a non-empty list of parts
  none of which carries inline data, the adapter rejects with the message that the AI
  responded but no image data was found. That message differs from the one of claim C3,
  and it is the message thrown inside the \<^verbatim>\<open>try\<close>: the \<^verbatim>\<open>catch\<close> block hands it on
  unchanged.
\<close>

theorem no_image_part_rejection:
  assumes "fst (generateContent (ai env) (generateContentParameters request) w) = Inr response"
    and "candidates response = Some (c # later)"
    and "content c = Some ct"
    and "parts ct = Some ps"
    and "ps \<noteq> []"
    and "list_all (\<lambda>q. inlineData q = None) ps"
  shows "fst (editImageWithGemini env generateContent request w) =
           Inl (Error (Some ''AI responded but no image data was found in the response.'')) \<and>
         fst (editImageWithGemini env generateContent request w) \<noteq>
           Inl (Error (Some ''No image was generated. Please try a different instruction.'')) \<and>
         read_response response =
           Inl (Error (Some ''AI responded but no image data was found in the response.'')) \<and>
         catch_rethrow (Error (Some ''AI responded but no image data was found in the response.'')) =
           Error (Some ''AI responded but no image data was found in the response.'')"
proof -
  have "first_candidate_parts response = Some ps"
    using assms(2-4) by (simp add: first_candidate_parts_path candidates0_content_parts_def)
  then have thrown: "read_response response =
      Inl (Error (Some ''AI responded but no image data was found in the response.''))"
    using assms(6) by (simp add: read_response_def scan_parts_no_image)
  have kept: "catch_rethrow (Error (Some ''AI responded but no image data was found in the response.'')) =
      Error (Some ''AI responded but no image data was found in the response.'')"
    by (simp add: catch_rethrow_message)
  have "fst (editImageWithGemini env generateContent request w) =
      Inl (Error (Some ''AI responded but no image data was found in the response.''))"
    using assms(1) thrown kept by (simp add: editImageWithGemini_outcome settle_def)
  with thrown kept show ?thesis
    by simp
qed

text \<open>
  A response of one text part.
\<close>

theorem no_image_part_rejection_witness:
  "fst (editImageWithGemini no_key
          (answering (one_candidate [text_part ''I cannot edit this photo.'']))
          example_request ()) =
     Inl (Error (Some ''AI responded but no image data was found in the response.''))"
proof -
  let ?ps = "[text_part ''I cannot edit this photo.'']"
  have called: "fst (answering (one_candidate ?ps) (ai no_key)
                  (generateContentParameters example_request) ()) = Inr (one_candidate ?ps)"
    by (simp add: answering_def)
  have cands: "candidates (one_candidate ?ps) = Some (\<lparr>content = Some \<lparr>parts = Some ?ps\<rparr>\<rparr> # [])"
    by (simp add: one_candidate_def)
  have cont: "content \<lparr>content = Some \<lparr>parts = Some ?ps\<rparr>\<rparr> = Some \<lparr>parts = Some ?ps\<rparr>"
    by simp
  have ps: "parts \<lparr>parts = Some ?ps\<rparr> = Some ?ps"
    by simp
  have nonempty: "?ps \<noteq> []"
    by simp
  have texts: "list_all (\<lambda>q. inlineData q = None) ?ps"
    by (simp add: text_part_def)
  show ?thesis
    using no_image_part_rejection
      [where generateContent = "answering (one_candidate ?ps)",
        OF called cands cont ps nonempty texts]
    by simp
qed

text \<open>
  Claim C5. When the remote call throws, the adapter rejects with the message of the
  thrown value when it has one that is not empty, and with the fixed message about the
  API key otherwise.
\<close>

theorem remote_failure_message:
  assumes "fst (generateContent (ai env) (generateContentParameters request) w) = Inl failure"
  shows "fst (editImageWithGemini env generateContent request w) =
           Inl (Error (Some
             (case message failure of
                None \<Rightarrow> ''Failed to process image. Ensure your API key is valid.''
              | Some m \<Rightarrow>
                  if m = [] then ''Failed to process image. Ensure your API key is valid.''
                  else m)))"
  using assms
  by (simp add: editImageWithGemini_outcome settle_def catch_rethrow_def js_or_def)

text \<open>
  A failure with a message, one with an empty message and one without a message.
\<close>

theorem remote_failure_message_witness:
  "fst (editImageWithGemini no_key (throwing (Error (Some ''Failed to fetch''))) example_request ()) =
     Inl (Error (Some ''Failed to fetch'')) \<and>
   fst (editImageWithGemini no_key (throwing (Error (Some ''''))) example_request ()) =
     Inl (Error (Some ''Failed to process image. Ensure your API key is valid.'')) \<and>
   fst (editImageWithGemini no_key (throwing (Error None)) example_request ()) =
     Inl (Error (Some ''Failed to process image. Ensure your API key is valid.''))"
proof -
  have a: "fst (throwing e (ai no_key) (generateContentParameters example_request) ()) = Inl e" for e
    by (simp add: throwing_def)
  show ?thesis
    using remote_failure_message [where generateContent = "throwing (Error (Some ''Failed to fetch''))", OF a]
      remote_failure_message [where generateContent = "throwing (Error (Some ''''))", OF a]
      remote_failure_message [where generateContent = "throwing (Error None)", OF a]
    by simp
qed

text \<open>
  Claim C10. Every rejection comes out of the \<^verbatim>\<open>catch\<close> block, and its message is a
  string that is not empty.
\<close>

theorem rejection_message_nonempty:
  assumes "fst (editImageWithGemini env generateContent request w) = Inl e"
  shows "(\<exists>cause. e = catch_rethrow cause) \<and> (\<exists>m. message e = Some m \<and> m \<noteq> [])"
proof -
  have nonempty: "\<exists>m. message (catch_rethrow cause) = Some m \<and> m \<noteq> []" for cause
    by (simp add: catch_rethrow_def js_or_def split: option.splits)
  from assms obtain cause where "e = catch_rethrow cause"
    by (auto simp: editImageWithGemini_outcome settle_def split: sum.splits)
  with nonempty show ?thesis
    by blast
qed

text \<open>
  A remote failure with an empty message is rejected with the fixed message.
\<close>

theorem rejection_message_nonempty_witness:
  "\<exists>m. message (Error (Some ''Failed to process image. Ensure your API key is valid.'')) = Some m
     \<and> m \<noteq> []"
proof -
  have "fst (editImageWithGemini no_key (throwing (Error (Some ''''))) example_request ()) =
      Inl (Error (Some ''Failed to process image. Ensure your API key is valid.''))"
    by (simp add: editImageWithGemini_outcome throwing_def settle_def catch_rethrow_def js_or_def)
  from rejection_message_nonempty [OF this] show ?thesis
    by blast
qed

subsection \<open>The request that is sent\<close>

lemma generateContentParameters_stated:
  "generateContentParameters request =
     \<lparr>model = ''gemini-2.5-flash-image'',
      contents = \<lparr>parts = Some
        [\<lparr>inlineData = Some
            \<lparr>data = map_option (takeWhile (\<lambda>c. c \<noteq> CHR '',''))
                      (after_first_comma (image request)),
             Blob.mimeType = Some (mimeType request)\<rparr>,
          part_text = None\<rparr>,
         \<lparr>inlineData = None,
          part_text = Some
            (''You are an expert product photo editor. \<newline>    User instruction: ''
              @ instruction request
              @ ''\<newline>    Please modify the provided image according to the instruction while maintaining high-quality resolution and professional studio aesthetics.\<newline>    If the user asks to remove background, ensure a clean professional cutout.'')\<rparr>]\<rparr>\<rparr>"
proof -
  have "imagePart request =
      \<lparr>inlineData = Some
         \<lparr>data = map_option (takeWhile (\<lambda>c. c \<noteq> CHR '',''))
                   (after_first_comma (image request)),
          Blob.mimeType = Some (mimeType request)\<rparr>,
       part_text = None\<rparr>"
    using sent_payload_cut [of request] by (simp add: sent_payload_def imagePart_def)
  then show ?thesis
    by (simp only: generateContentParameters_def textPart_def enhancedPrompt_template)
qed

lemma ai_stated: "ai env = \<lparr>apiKey = (case API_KEY env of None \<Rightarrow> '''' | Some k \<Rightarrow> k)\<rparr>"
  by (simp add: ai_def js_or_def split: option.splits)

text \<open>
  Claim C6, as the code has it. Whatever calls were made before, and whatever the remote
  does, one invocation adds exactly one call to the log. Its model is
  \<^verbatim>\<open>gemini-2.5-flash-image\<close>; its two parts are, in this order, the inline-image part
  and the text part. The image part carries the mime type of the request as it is and, as
  payload, the substring of the image after its first comma cut at the next comma (no
  payload when the image has no comma); a payload without a comma of its own, as every
  base64 payload is, is carried whole. The text part carries the instruction inside the
  fixed template. Recording the calls does not change the outcome.
\<close>

theorem one_call_two_parts:
  "snd (snd (editImageWithGemini env (recording generateContent) request (w, log))) =
     log @
     [(\<lparr>apiKey = (case API_KEY env of None \<Rightarrow> '''' | Some k \<Rightarrow> k)\<rparr>,
       \<lparr>model = ''gemini-2.5-flash-image'',
        contents = \<lparr>parts = Some
          [\<lparr>inlineData = Some
              \<lparr>data = map_option (takeWhile (\<lambda>c. c \<noteq> CHR '',''))
                        (after_first_comma (image request)),
               Blob.mimeType = Some (mimeType request)\<rparr>,
            part_text = None\<rparr>,
           \<lparr>inlineData = None,
            part_text = Some
              (''You are an expert product photo editor. \<newline>    User instruction: ''
                @ instruction request
                @ ''\<newline>    Please modify the provided image according to the instruction while maintaining high-quality resolution and professional studio aesthetics.\<newline>    If the user asks to remove background, ensure a clean professional cutout.'')\<rparr>]\<rparr>\<rparr>)] \<and>
   fst (editImageWithGemini env (recording generateContent) request (w, log)) =
     fst (editImageWithGemini env generateContent request w) \<and>
   (\<forall>payload. after_first_comma (image request) = Some payload \<and> CHR '','' \<notin> set payload \<longrightarrow>
      map_option (takeWhile (\<lambda>c. c \<noteq> CHR '','')) (after_first_comma (image request)) =
        Some payload)"
proof -
  have "fst (editImageWithGemini env (recording generateContent) request (w, log)) =
     fst (editImageWithGemini env generateContent request w)"
    by (simp add: editImageWithGemini_def recording_def split: prod.splits)
  moreover have "snd (snd (editImageWithGemini env (recording generateContent) request (w, log))) =
     log @ [(ai env, generateContentParameters request)]"
    by (rule editImageWithGemini_log)
  ultimately show ?thesis
    by (simp only: ai_stated generateContentParameters_stated)
      (simp add: takeWhile_no_sep)
qed

text \<open>
  The example request: one call, with the payload \<^verbatim>\<open>AAAA\<close> and the instruction in the
  template.
\<close>

theorem one_call_two_parts_witness:
  "snd (snd (editImageWithGemini no_key
       (recording (answering (one_candidate [image_part ''image/png'' ''BBBB''])))
       example_request ((), []))) =
     [(\<lparr>apiKey = ''''\<rparr>,
       \<lparr>model = ''gemini-2.5-flash-image'',
        contents = \<lparr>parts = Some
          [\<lparr>inlineData = Some \<lparr>data = Some ''AAAA'', Blob.mimeType = Some ''image/png''\<rparr>,
            part_text = None\<rparr>,
           \<lparr>inlineData = None,
            part_text = Some
              ''You are an expert product photo editor. \<newline>    User instruction: Remove background\<newline>    Please modify the provided image according to the instruction while maintaining high-quality resolution and professional studio aesthetics.\<newline>    If the user asks to remove background, ensure a clean professional cutout.''\<rparr>]\<rparr>\<rparr>)]"
proof -
  have payload: "after_first_comma (image example_request) = Some ''AAAA'' \<and> CHR '','' \<notin> set ''AAAA''"
    by (simp add: example_request_def after_first_comma_def)
  have fields: "mimeType example_request = ''image/png''"
    "instruction example_request = ''Remove background''" "API_KEY no_key = None"
    by (simp_all add: example_request_def no_key_def)
  note run = one_call_two_parts
    [of no_key "answering (one_candidate [image_part ''image/png'' ''BBBB''])" example_request
      "()" "[]"]
  from run payload
  have "map_option (takeWhile (\<lambda>c. c \<noteq> CHR '','')) (after_first_comma (image example_request)) =
      Some ''AAAA''"
    by blast
  with run show ?thesis
    by (simp add: fields)
qed

text \<open>
  Claim C6 as stated fails on an image whose payload has a comma of its own: the call
  carries \<^verbatim>\<open>AA\<close>, not the payload \<^verbatim>\<open>AA,BB\<close> that stripping the prefix leaves.
\<close>

theorem logged_payload_cut_short:
  "snd (snd (editImageWithGemini no_key
       (recording (answering (one_candidate [image_part ''image/png'' ''BBBB''])))
       \<lparr>image = ''data:image/png;base64,AA,BB'', mimeType = ''image/png'',
         instruction = ''Remove background''\<rparr> ((), []))) =
     [(\<lparr>apiKey = ''''\<rparr>,
       \<lparr>model = ''gemini-2.5-flash-image'',
        contents = \<lparr>parts = Some
          [\<lparr>inlineData = Some \<lparr>data = Some ''AA'', Blob.mimeType = Some ''image/png''\<rparr>,
            part_text = None\<rparr>,
           \<lparr>inlineData = None,
            part_text = Some
              ''You are an expert product photo editor. \<newline>    User instruction: Remove background\<newline>    Please modify the provided image according to the instruction while maintaining high-quality resolution and professional studio aesthetics.\<newline>    If the user asks to remove background, ensure a clean professional cutout.''\<rparr>]\<rparr>\<rparr>)] \<and>
   after_first_comma ''data:image/png;base64,AA,BB'' = Some ''AA,BB'' \<and>
   Some ''AA'' \<noteq> after_first_comma ''data:image/png;base64,AA,BB''"
proof -
  have stripped: "after_first_comma ''data:image/png;base64,AA,BB'' = Some ''AA,BB''"
    by (simp add: after_first_comma_def)
  have "snd (snd (editImageWithGemini no_key
       (recording (answering (one_candidate [image_part ''image/png'' ''BBBB''])))
       \<lparr>image = ''data:image/png;base64,AA,BB'', mimeType = ''image/png'',
         instruction = ''Remove background''\<rparr> ((), []))) =
     [] @ [(ai no_key, generateContentParameters
       \<lparr>image = ''data:image/png;base64,AA,BB'', mimeType = ''image/png'',
         instruction = ''Remove background''\<rparr>)]"
    by (rule editImageWithGemini_log)
  then show ?thesis
    by (simp add: ai_stated generateContentParameters_stated stripped no_key_def)
qed


text \<open>
  Claim C9. An image without a comma is not rejected before the call: the image part has
  no payload, the call is made with it, and the outcome is the one the answer of the
  remote gives. An image with a comma always has a payload.
\<close>

theorem no_comma_still_calls:
  "(CHR '','' \<notin> set (image request) \<longrightarrow>
      imagePart request =
        \<lparr>inlineData = Some \<lparr>data = None, Blob.mimeType = Some (mimeType request)\<rparr>,
         part_text = None\<rparr> \<and>
      snd (snd (editImageWithGemini env (recording generateContent) request (w, []))) =
        [(ai env,
          \<lparr>model = ''gemini-2.5-flash-image'',
           contents = \<lparr>parts = Some
             [\<lparr>inlineData = Some \<lparr>data = None, Blob.mimeType = Some (mimeType request)\<rparr>,
               part_text = None\<rparr>,
              textPart request]\<rparr>\<rparr>)] \<and>
      fst (editImageWithGemini env generateContent request w) =
        settle (fst (generateContent (ai env) (generateContentParameters request) w))) \<and>
   (CHR '','' \<in> set (image request) \<longrightarrow> (\<exists>payload. sent_payload request = Some payload))"
proof (intro conjI impI)
  assume none: "CHR '','' \<notin> set (image request)"
  then show part: "imagePart request =
        \<lparr>inlineData = Some \<lparr>data = None, Blob.mimeType = Some (mimeType request)\<rparr>,
         part_text = None\<rparr>"
    by (simp add: imagePart_def js_index_second_none [simplified])
  then show "snd (snd (editImageWithGemini env (recording generateContent) request (w, []))) =
        [(ai env,
          \<lparr>model = ''gemini-2.5-flash-image'',
           contents = \<lparr>parts = Some
             [\<lparr>inlineData = Some \<lparr>data = None, Blob.mimeType = Some (mimeType request)\<rparr>,
               part_text = None\<rparr>,
              textPart request]\<rparr>\<rparr>)]"
    by (simp add: editImageWithGemini_log generateContentParameters_def)
next
  show "fst (editImageWithGemini env generateContent request w) =
        settle (fst (generateContent (ai env) (generateContentParameters request) w))"
    by (rule editImageWithGemini_outcome)
next
  assume "CHR '','' \<in> set (image request)"
  then have "dropWhile (\<lambda>c. c \<noteq> CHR '','') (image request) \<noteq> []"
    by (simp add: dropWhile_eq_Nil_conv)
  then obtain x rest where "dropWhile (\<lambda>c. c \<noteq> CHR '','') (image request) = x # rest"
    by (cases "dropWhile (\<lambda>c. c \<noteq> CHR '','') (image request)") auto
  then have "after_first_comma (image request) = Some rest"
    by (simp add: after_first_comma_def)
  then show "\<exists>payload. sent_payload request = Some payload"
    by (simp add: sent_payload_cut)
qed

text \<open>
  The image \<^verbatim>\<open>AAAA\<close>, without a comma: the call is made without a payload and the
  image of the answer is returned. The example image, with its comma, has its payload.
\<close>

theorem no_comma_still_calls_witness:
  "snd (snd (editImageWithGemini no_key
       (recording (answering (one_candidate [image_part ''image/png'' ''BBBB''])))
       (example_request\<lparr>image := ''AAAA''\<rparr>) ((), []))) =
     [(ai no_key,
       \<lparr>model = ''gemini-2.5-flash-image'',
        contents = \<lparr>parts = Some
          [\<lparr>inlineData = Some \<lparr>data = None, Blob.mimeType = Some ''image/png''\<rparr>,
            part_text = None\<rparr>,
           textPart (example_request\<lparr>image := ''AAAA''\<rparr>)]\<rparr>\<rparr>)] \<and>
   fst (editImageWithGemini no_key
       (answering (one_candidate [image_part ''image/png'' ''BBBB'']))
       (example_request\<lparr>image := ''AAAA''\<rparr>) ()) = Inr ''data:image/png;base64,BBBB'' \<and>
   sent_payload example_request = Some ''AAAA''"
proof -
  let ?r = "example_request\<lparr>image := ''AAAA''\<rparr>"
  let ?g = "answering (one_candidate [image_part ''image/png'' ''BBBB''])"
  have no: "CHR '','' \<notin> set (image ?r)"
    by simp
  have yes: "CHR '','' \<in> set (image example_request)"
    by (simp add: example_request_def)
  have mime: "mimeType ?r = ''image/png''"
    by (simp add: example_request_def)
  have run: "settle (fst (?g (ai no_key) (generateContentParameters ?r) ())) =
      Inr ''data:image/png;base64,BBBB''"
    by (simp add: answering_def settle_def read_response_def
        first_candidate_parts_path candidates0_content_parts_def one_candidate_def image_part_def
        js_template_def)
  have "\<exists>payload. sent_payload example_request = Some payload"
    using no_comma_still_calls [of example_request no_key ?g "()"] yes by blast
  then have "sent_payload example_request = Some ''AAAA''"
    by (auto simp: sent_payload_cut after_first_comma_def example_request_def)
  then show ?thesis
    using no_comma_still_calls [of ?r no_key ?g "()"] no mime run
    by simp 
qed

subsection \<open>What the outcome depends on\<close>

text \<open>
  Claim C7. Two answers that agree on \<^verbatim>\<open>candidates[0].content.parts\<close> (both without
  that path, or both with the same parts) give the same outcome, whatever else they hold
  and whichever remote and world they come from.
\<close>

theorem outcome_from_first_candidate_only:
  assumes "fst (generateContent1 (ai env) (generateContentParameters request) w1) = Inr response1"
    and "fst (generateContent2 (ai env) (generateContentParameters request) w2) = Inr response2"
    and "candidates0_content_parts response1 = candidates0_content_parts response2"
  shows "fst (editImageWithGemini env generateContent1 request w1) =
         fst (editImageWithGemini env generateContent2 request w2)"
proof -
  have "read_response response1 = read_response response2"
    using assms(3) by (simp add: read_response_def first_candidate_parts_path)
  then show ?thesis
    using assms(1,2) by (simp add: editImageWithGemini_outcome settle_def)
qed

text \<open>
  A second candidate with another image changes nothing.
\<close>

theorem outcome_from_first_candidate_only_witness:
  "fst (editImageWithGemini no_key
          (answering \<lparr>candidates = Some
             [\<lparr>content = Some \<lparr>parts = Some [image_part ''image/png'' ''BBBB'']\<rparr>\<rparr>,
              \<lparr>content = Some \<lparr>parts = Some [image_part ''image/jpeg'' ''CCCC'']\<rparr>\<rparr>]\<rparr>)
          example_request ()) =
   fst (editImageWithGemini no_key
          (answering (one_candidate [image_part ''image/png'' ''BBBB'']))
          example_request ()) \<and>
   fst (editImageWithGemini no_key
          (answering (one_candidate [image_part ''image/png'' ''BBBB'']))
          example_request ()) = Inr ''data:image/png;base64,BBBB''"
proof -
  let ?two = "\<lparr>candidates = Some
             [\<lparr>content = Some \<lparr>parts = Some [image_part ''image/png'' ''BBBB'']\<rparr>\<rparr>,
              \<lparr>content = Some \<lparr>parts = Some [image_part ''image/jpeg'' ''CCCC'']\<rparr>\<rparr>]\<rparr>"
  let ?one = "one_candidate [image_part ''image/png'' ''BBBB'']"
  have a: "fst (answering r (ai no_key) (generateContentParameters example_request) ()) = Inr r" for r
    by (simp add: answering_def)
  have same: "candidates0_content_parts ?two = candidates0_content_parts ?one"
    by (simp add: candidates0_content_parts_def one_candidate_def)
  have "fst (editImageWithGemini no_key (answering ?two) example_request ()) =
      fst (editImageWithGemini no_key (answering ?one) example_request ())"
    by (rule outcome_from_first_candidate_only
        [where ?generateContent1.0 = "answering ?two" and ?generateContent2.0 = "answering ?one",
          OF a a same])
  moreover have "fst (editImageWithGemini no_key (answering ?one) example_request ()) =
      Inr ''data:image/png;base64,BBBB''"
    by (simp add: editImageWithGemini_outcome answering_def settle_def read_response_def
        first_candidate_parts_path candidates0_content_parts_def one_candidate_def image_part_def
        js_template_def)
  ultimately show ?thesis
    by simp
qed

end
